theory Spec2Isabelle
  imports Main "HOL-Library.AList" "HOL-Library.Sublist"
begin

section \<open>Status vocabulary (pkg/status/status.go, second part)\<close>

text \<open>
  Modelled from the spec: \<open>release.Status\<close> and its \<open>String\<close> method are declared in
  Helm's \<open>release\<close> package, which is not part of this repository. The spec (section 3)
  gives the closed set of eight values and their lowercase hyphenated rendering; the
  constants below carry the names the source uses for them.
\<close>

datatype Status =
    StatusUnknown
  | StatusDeployed
  | StatusSuperseded
  | StatusFailed
  | StatusUninstalling
  | StatusPendingInstall
  | StatusPendingUpgrade
  | StatusPendingRollback

fun String :: "Status \<Rightarrow> string" where
  "String StatusUnknown = ''unknown''"
| "String StatusDeployed = ''deployed''"
| "String StatusSuperseded = ''superseded''"
| "String StatusFailed = ''failed''"
| "String StatusUninstalling = ''uninstalling''"
| "String StatusPendingInstall = ''pending-install''"
| "String StatusPendingUpgrade = ''pending-upgrade''"
| "String StatusPendingRollback = ''pending-rollback''"

text \<open>\<open>var ValidStatuses = []string{...}\<close>, in declaration order.\<close>

definition ValidStatuses :: "string list" where
  "ValidStatuses =
     [''unknown'', ''deployed'', ''superseded'', ''failed'', ''uninstalling'',
      ''pending-install'', ''pending-upgrade'', ''pending-rollback'']"

section \<open>Errors\<close>

text \<open>
  Go's \<open>error\<close> values, as far as this program builds or inspects them.
  \<^item> \<open>ErrorString m\<close>: \<open>fmt.Errorf\<close> without \<open>%w\<close>, an error that is only its message;
  \<^item> \<open>BackendError m\<close>: an error handed back by a collaborator outside this repository
    (Helm's storage layer, the configuration factory); only its message is observed,
    and it is never one of this package's own error types;
  \<^item> \<open>ReleaseNotFoundError\<close> and \<open>PreconditionError\<close>: the two struct types of
    status.go, with their fields;
  \<^item> \<open>WrapError m e\<close>: \<open>fmt.Errorf\<close> with \<open>%w\<close>: the formatted message \<open>m\<close> and the
    wrapped error \<open>e\<close> that \<open>errors.Unwrap\<close> returns.
\<close>

datatype error =
    ErrorString string
  | BackendError string
  | ReleaseNotFoundError string
  | PreconditionError Status "Status list"
  | WrapError string error

subsection \<open>Formatting verbs\<close>

definition hexDigit :: "nat \<Rightarrow> char" where
  "hexDigit n = ''0123456789abcdef'' ! (n mod 16)"

text \<open>
  \<open>%q\<close> on a string is \<open>strconv.Quote\<close>: the text between double quotes, with the double
  quote and the backslash escaped, the control characters written as Go escapes, and
  every other ASCII character copied. A byte from 0x80 up is copied as it is, which is
  what Go does for printable UTF-8 text (Go escapes the non-printable and the malformed
  rest; that part of Unicode is not modelled).
\<close>

definition quoteChar :: "char \<Rightarrow> string" where
  "quoteChar c =
     (let n = (of_char c :: nat) in
      if n = 0x22 then [CHR 0x5C, CHR 0x22]
      else if n = 0x5C then [CHR 0x5C, CHR 0x5C]
      else if n = 7 then [CHR 0x5C, CHR ''a'']
      else if n = 8 then [CHR 0x5C, CHR ''b'']
      else if n = 12 then [CHR 0x5C, CHR ''f'']
      else if n = 10 then [CHR 0x5C, CHR ''n'']
      else if n = 13 then [CHR 0x5C, CHR ''r'']
      else if n = 9 then [CHR 0x5C, CHR ''t'']
      else if n = 11 then [CHR 0x5C, CHR ''v'']
      else if n < 0x20 \<or> n = 0x7F then [CHR 0x5C, CHR ''x'', hexDigit (n div 16), hexDigit n]
      else [c])"

definition quote :: "string \<Rightarrow> string" where
  "quote s = [CHR 0x22] @ concat (map quoteChar s) @ [CHR 0x22]"

text \<open>\<open>%d\<close> on an \<open>int\<close>: decimal digits, with a minus sign for a negative number.\<close>

fun decNat :: "nat \<Rightarrow> string" where
  "decNat n = (if n < 10 then [hexDigit n] else decNat (n div 10) @ [hexDigit (n mod 10)])"

definition decInt :: "int \<Rightarrow> string" where
  "decInt i = (if i < 0 then CHR ''-'' # decNat (nat (- i)) else decNat (nat i))"

text \<open>\<open>%v\<close> on a \<open>[]string\<close>: the elements separated by one space, in square brackets.\<close>

fun joinSpace :: "string list \<Rightarrow> string" where
  "joinSpace [] = []"
| "joinSpace [x] = x"
| "joinSpace (x # y # ys) = x @ '' '' @ joinSpace (y # ys)"

definition fmtStrings :: "string list \<Rightarrow> string" where
  "fmtStrings xs = ''['' @ joinSpace xs @ '']''"

subsection \<open>ParseStatus and ValidStatusesString\<close>

text \<open>
  \<open>ParseStatus\<close> returns Go's pair \<open>(release.Status, error)\<close>; \<open>None\<close> is the \<open>nil\<close>
  error. The \<open>switch\<close> compares the whole string, byte for byte.
\<close>

definition ParseStatus :: "string \<Rightarrow> Status \<times> error option" where
  "ParseStatus s =
     (if s = ''unknown'' then (StatusUnknown, None)
      else if s = ''deployed'' then (StatusDeployed, None)
      else if s = ''superseded'' then (StatusSuperseded, None)
      else if s = ''failed'' then (StatusFailed, None)
      else if s = ''uninstalling'' then (StatusUninstalling, None)
      else if s = ''pending-install'' then (StatusPendingInstall, None)
      else if s = ''pending-upgrade'' then (StatusPendingUpgrade, None)
      else if s = ''pending-rollback'' then (StatusPendingRollback, None)
      else (StatusUnknown, Some (ErrorString (''invalid status: '' @ s))))"

text \<open>
  The loop of \<open>ValidStatusesString\<close>: \<open>i\<close> is the index of the head of the remaining list,
  \<open>result\<close> the string built so far.
\<close>

fun ValidStatusesString_loop :: "nat \<Rightarrow> string list \<Rightarrow> string \<Rightarrow> string" where
  "ValidStatusesString_loop i [] result = result"
| "ValidStatusesString_loop i (s # ss) result =
     ValidStatusesString_loop (Suc i) ss ((if i > 0 then result @ '', '' else result) @ s)"

definition ValidStatusesString :: string where
  "ValidStatusesString = ValidStatusesString_loop 0 ValidStatuses ''''"

subsection \<open>The error types' methods\<close>

text \<open>\<open>statusListToStrings\<close>: the loop fills \<open>result[i]\<close> with \<open>s.String()\<close>.\<close>

fun statusListToStrings :: "Status list \<Rightarrow> string list" where
  "statusListToStrings [] = []"
| "statusListToStrings (s # ss) = String s # statusListToStrings ss"

text \<open>
  \<open>Error()\<close>: the two methods of status.go, and the message an error made by
  \<open>fmt.Errorf\<close> or by a collaborator carries.
\<close>

fun Error :: "error \<Rightarrow> string" where
  "Error (ErrorString m) = m"
| "Error (BackendError m) = m"
| "Error (ReleaseNotFoundError n) = ''release '' @ quote n @ '' not found''"
| "Error (PreconditionError c a) =
     ''current status '' @ quote (String c) @ '' is not in allowed list: ''
       @ fmtStrings (statusListToStrings a)"
| "Error (WrapError m e) = m"

text \<open>
  \<open>errors.As(err, &precondErr)\<close> with \<open>precondErr\<close> of type \<open>*PreconditionError\<close>: walk
  the chain of wrapped errors and stop at the first \<open>PreconditionError\<close>.
\<close>

fun errors_As_PreconditionError :: "error \<Rightarrow> bool" where
  "errors_As_PreconditionError (PreconditionError c a) = True"
| "errors_As_PreconditionError (WrapError m e) = errors_As_PreconditionError e"
| "errors_As_PreconditionError (ErrorString m) = False"
| "errors_As_PreconditionError (BackendError m) = False"
| "errors_As_PreconditionError (ReleaseNotFoundError n) = False"

text \<open>
  The same walk for \<open>*ReleaseNotFoundError\<close>, as the tests make it
  (\<open>errors.As(err, &notFoundErr)\<close> in status_test.go).
\<close>

fun errors_As_ReleaseNotFoundError :: "error \<Rightarrow> bool" where
  "errors_As_ReleaseNotFoundError (ReleaseNotFoundError n) = True"
| "errors_As_ReleaseNotFoundError (WrapError m e) = errors_As_ReleaseNotFoundError e"
| "errors_As_ReleaseNotFoundError (ErrorString m) = False"
| "errors_As_ReleaseNotFoundError (BackendError m) = False"
| "errors_As_ReleaseNotFoundError (PreconditionError c a) = False"

section \<open>Release records and the store\<close>

text \<open>
  Modelled from the spec: the release record is Helm's \<open>release.Release\<close>, outside this
  repository. The fields are those the source and its tests read or write: \<open>Name\<close>,
  \<open>Namespace\<close>, \<open>Version\<close> (the revision), \<open>Chart\<close>, and \<open>Info\<close> with \<open>Status\<close>,
  \<open>Description\<close> and \<open>LastDeployed\<close>. \<open>Info\<close> is a pointer in Go: \<open>None\<close> is \<open>nil\<close>.
  \<open>Time\<close> stands for a timestamp; \<open>helmtime.Now()\<close> is the argument \<open>now\<close> of \<open>SetStatus\<close>.
\<close>

type_synonym Time = nat

record Chart =
  ChartName :: string
  ChartVersion :: string

record Info =
  Status :: Status
  Description :: string
  LastDeployed :: Time

record Release =
  Name :: string
  Namespace :: string
  Version :: int
  Info :: "Info option"
  Chart :: "Chart option"

text \<open>
  \<open>SetStatus\<close> holds a \<open>*release.Release\<close> and writes through it, so the records live in
  a heap: a map from addresses to records. An address the heap does not hold is the
  \<open>nil\<close> pointer, and dereferencing it panics.

  \<open>cfg.Releases\<close> is Helm's storage, taken as a parameter: three operations over the heap
  and a backend state of any type \<open>'b\<close>. A lookup returns the address of a record or the
  message of the backend's error; an update returns the message of its error, if any.
\<close>

type_synonym addr = nat

type_synonym 'b mem = "(addr \<rightharpoonup> Release) \<times> 'b"

record 'b Storage =
  Get :: "string \<Rightarrow> int \<Rightarrow> 'b mem \<Rightarrow> (string + addr) \<times> 'b mem"
  Last :: "string \<Rightarrow> 'b mem \<Rightarrow> (string + addr) \<times> 'b mem"
  Update :: "addr \<Rightarrow> 'b mem \<Rightarrow> string option \<times> 'b mem"

text \<open>
  The state a call runs in: the heap, the backend, what was written to
  \<open>cmd.OutOrStdout()\<close>, and a log of the calls made to the collaborators, in order. The
  log is kept by the model, not by the program: each call of the factory or of a store
  operation appends its entry, an update with the record it is handed. The store
  operations see the heap and the backend only.
\<close>

datatype call =
    CallFactory
  | CallGet string int
  | CallLast string
  | CallUpdate addr Release

record 'b state =
  heap :: "addr \<rightharpoonup> Release"
  drv :: 'b
  calls :: "call list"
  out :: "string list"

text \<open>A Go call either returns or panics.\<close>

datatype 'a outcome = Return 'a | Panic

section \<open>SetStatus (pkg/status/status.go)\<close>

text \<open>
  Lines 49 to 61: the lookup. A revision above zero goes to \<open>Get\<close>, anything else to
  \<open>Last\<close>; each failure is turned into the error \<open>SetStatus\<close> returns.
\<close>

definition resolve ::
  "'b Storage \<Rightarrow> string \<Rightarrow> int \<Rightarrow> 'b state \<Rightarrow> (error + addr) \<times> 'b state" where
  "resolve cfg releaseName revision s =
     (if revision > 0 then
        (case Get cfg releaseName revision (heap s, drv s) of
           (res, (h, d)) \<Rightarrow>
             let s1 = s\<lparr>heap := h, drv := d, calls := calls s @ [CallGet releaseName revision]\<rparr>
             in (case res of
                   Inl err \<Rightarrow>
                     (Inl (WrapError
                        (''failed to get release '' @ releaseName @ '' revision ''
                           @ decInt revision @ '': '' @ err)
                        (BackendError err)), s1)
                 | Inr rel \<Rightarrow> (Inr rel, s1)))
      else
        (case Last cfg releaseName (heap s, drv s) of
           (res, (h, d)) \<Rightarrow>
             let s1 = s\<lparr>heap := h, drv := d, calls := calls s @ [CallLast releaseName]\<rparr>
             in (case res of
                   Inl err \<Rightarrow> (Inl (ReleaseNotFoundError releaseName), s1)
                 | Inr rel \<Rightarrow> (Inr rel, s1))))"

text \<open>Lines 66 to 72: the loop over \<open>allowedFromStatuses\<close>, with its \<open>break\<close>.\<close>

fun allowedLoop :: "Status \<Rightarrow> Status list \<Rightarrow> bool" where
  "allowedLoop currentStatus [] = False"
| "allowedLoop currentStatus (s # ss) =
     (if currentStatus = s then True else allowedLoop currentStatus ss)"

text \<open>
  The whole function. Reading \<open>rel.Info.Status\<close> (line 65) or writing it (line 82)
  panics when \<open>rel\<close> or \<open>rel.Info\<close> is \<open>nil\<close>. The three assignments of lines 82 to 84
  write through the pointer, so they change the heap before \<open>Update\<close> is called.
\<close>

definition SetStatus ::
  "'b Storage \<Rightarrow> Time \<Rightarrow> string \<Rightarrow> Status \<Rightarrow> int \<Rightarrow> Status list \<Rightarrow> 'b state
     \<Rightarrow> error option outcome \<times> 'b state" where
  "SetStatus cfg now releaseName status revision allowedFromStatuses s =
     (case resolve cfg releaseName revision s of
        (Inl err, s1) \<Rightarrow> (Return (Some err), s1)
      | (Inr rel, s1) \<Rightarrow>
          (case heap s1 rel of
             None \<Rightarrow> (Panic, s1)
           | Some r \<Rightarrow>
               (case Info r of
                  None \<Rightarrow> (Panic, s1)
                | Some i \<Rightarrow>
                    if length allowedFromStatuses > 0
                       \<and> \<not> allowedLoop (Status i) allowedFromStatuses
                    then (Return (Some (PreconditionError (Status i) allowedFromStatuses)), s1)
                    else
                      (let r' = r\<lparr>Info := Some (i\<lparr>Status := status,
                                      Description := ''status set to '' @ String status,
                                      LastDeployed := now\<rparr>)\<rparr>
                       in case Update cfg rel ((heap s1)(rel \<mapsto> r'), drv s1) of
                            (res, (h, d)) \<Rightarrow>
                              let s3 = s1\<lparr>heap := h, drv := d,
                                          calls := calls s1 @ [CallUpdate rel r']\<rparr>
                              in (case res of
                                    Some err \<Rightarrow>
                                      (Return (Some (WrapError
                                         (''failed to update release '' @ releaseName
                                            @ '': '' @ err)
                                         (BackendError err))), s3)
                                  | None \<Rightarrow> (Return None, s3))))))"

section \<open>runWithConfigFactory (the command's entry point)\<close>

text \<open>
  The loop over \<open>fromStatuses\<close>: \<open>acc\<close> is \<open>allowedFromStatuses\<close> so far; the first
  string \<open>ParseStatus\<close> rejects ends the function with its error.
\<close>

fun parseFromStatuses :: "string list \<Rightarrow> Status list \<Rightarrow> error + Status list" where
  "parseFromStatuses [] acc = Inr acc"
| "parseFromStatuses (s # ss) acc =
     (case ParseStatus s of
        (parsed, Some err) \<Rightarrow>
          Inl (WrapError
                 (''invalid --from status '' @ quote s @ '': '' @ Error err
                    @ [CHR 0x0A] @ ''Valid statuses: '' @ ValidStatusesString)
                 err)
      | (parsed, None) \<Rightarrow> parseFromStatuses ss (acc @ [parsed]))"

text \<open>
  \<open>args[0]\<close> and \<open>args[1]\<close> panic on a shorter slice. \<open>configFactory\<close> returns the store
  or the message of its error; the parameter \<open>rev\<close> is written \<open>revision\<close> here.
  Each \<open>Fprintf\<close> appends one string to \<open>out\<close>.
\<close>

definition runWithConfigFactory ::
  "Time \<Rightarrow> string list \<Rightarrow> int \<Rightarrow> string list \<Rightarrow> bool
     \<Rightarrow> ('b mem \<Rightarrow> (string + 'b Storage) \<times> 'b mem) \<Rightarrow> 'b state
     \<Rightarrow> error option outcome \<times> 'b state" where
  "runWithConfigFactory now args revision fromStatuses noFail configFactory s =
     (if length args < 2 then (Panic, s)
      else
        let releaseName = args ! 0; statusStr = args ! 1 in
        case ParseStatus statusStr of
          (targetStatus, Some err) \<Rightarrow>
            (Return (Some (WrapError
               (Error err @ [CHR 0x0A] @ ''Valid statuses: '' @ ValidStatusesString) err)), s)
        | (targetStatus, None) \<Rightarrow>
            (case parseFromStatuses fromStatuses [] of
               Inl err \<Rightarrow> (Return (Some err), s)
             | Inr allowedFromStatuses \<Rightarrow>
                 (case configFactory (heap s, drv s) of
                    (res, (h, d)) \<Rightarrow>
                      let s1 = s\<lparr>heap := h, drv := d, calls := calls s @ [CallFactory]\<rparr>
                      in (case res of
                            Inl err \<Rightarrow>
                              (Return (Some (WrapError
                                 (''failed to create configuration: '' @ err)
                                 (BackendError err))), s1)
                          | Inr cfg \<Rightarrow>
                              (case SetStatus cfg now releaseName targetStatus revision
                                      allowedFromStatuses s1 of
                                 (Panic, s2) \<Rightarrow> (Panic, s2)
                               | (Return (Some err), s2) \<Rightarrow>
                                   if errors_As_PreconditionError err \<and> noFail
                                   then (Return None,
                                         s2\<lparr>out := out s2
                                            @ [''Skipped: '' @ Error err @ [CHR 0x0A]]\<rparr>)
                                   else (Return (Some err), s2)
                               | (Return None, s2) \<Rightarrow>
                                   (Return None,
                                    s2\<lparr>out := out s2 @
                                      [if revision > 0
                                       then ''Release '' @ quote releaseName @ '' revision ''
                                              @ decInt revision @ '' status set to ''
                                              @ quote statusStr @ [CHR 0x0A]
                                       else ''Release '' @ quote releaseName
                                              @ '' status set to '' @ quote statusStr
                                              @ [CHR 0x0A]]\<rparr>))))))"

section \<open>Stores\<close>

text \<open>
  Modelled from the spec: the release store is Helm's, outside this repository. Section
  6 of the spec gives its contract: \<open>getLatest\<close>, \<open>getRevision\<close> and an \<open>update\<close> that
  overwrites the record at its own (name, revision) key; section 3 has the engine borrow
  a copy of the record. \<open>copyStore\<close> is that store: the backend keeps the records by
  value under their keys, a lookup places a copy at a fresh address, and an update writes
  the record it is handed under the record's own name and revision, or fails on a key it
  does not have.
\<close>

fun latestRev :: "string \<Rightarrow> ((string \<times> int) \<times> 'v) list \<Rightarrow> int option" where
  "latestRev name [] = None"
| "latestRev name (((n, v), x) # rest) =
     (if n = name
      then (case latestRev name rest of None \<Rightarrow> Some v | Some v' \<Rightarrow> Some (max v v'))
      else latestRev name rest)"

record copyDrv =
  nextAddr :: addr
  db :: "((string \<times> int) \<times> Release) list"

definition copyGet :: "string \<Rightarrow> int \<Rightarrow> copyDrv mem \<Rightarrow> (string + addr) \<times> copyDrv mem" where
  "copyGet name revision m =
     (case m of (h, d) \<Rightarrow>
        (case map_of (db d) (name, revision) of
           None \<Rightarrow> (Inl ''release: not found'', m)
         | Some r \<Rightarrow>
             (Inr (nextAddr d), (h(nextAddr d \<mapsto> r), d\<lparr>nextAddr := Suc (nextAddr d)\<rparr>))))"

definition copyLast :: "string \<Rightarrow> copyDrv mem \<Rightarrow> (string + addr) \<times> copyDrv mem" where
  "copyLast name m =
     (case latestRev name (db (snd m)) of
        None \<Rightarrow> (Inl ''no revision for release'', m)
      | Some v \<Rightarrow> copyGet name v m)"

definition copyUpdate :: "addr \<Rightarrow> copyDrv mem \<Rightarrow> string option \<times> copyDrv mem" where
  "copyUpdate rel m =
     (case m of (h, d) \<Rightarrow>
        (case h rel of
           None \<Rightarrow> (Some ''release: not found'', m)
         | Some r \<Rightarrow>
             (case map_of (db d) (Name r, Version r) of
                None \<Rightarrow> (Some ''release: not found'', m)
              | Some old \<Rightarrow>
                  (None, (h, d\<lparr>db := AList.update (Name r, Version r) r (db d)\<rparr>)))))"

definition copyStore :: "copyDrv Storage" where
  "copyStore = \<lparr>Get = copyGet, Last = copyLast, Update = copyUpdate\<rparr>"






text \<open>
  The factory the tests hand to \<open>runWithConfigFactory\<close>: it returns a configuration over
  the store the test has built, and never fails.
\<close>

definition storeFactory :: "'b Storage \<Rightarrow> 'b mem \<Rightarrow> (string + 'b Storage) \<times> 'b mem" where
  "storeFactory cfg m = (Inr cfg, m)"

text \<open>The status a store shows for a release: what a fresh lookup finds.\<close>

definition storedStatus :: "'b Storage \<Rightarrow> string \<Rightarrow> int \<Rightarrow> 'b state \<Rightarrow> Status option" where
  "storedStatus cfg releaseName revision s =
     (case resolve cfg releaseName revision s of
        (Inl err, s1) \<Rightarrow> None
      | (Inr rel, s1) \<Rightarrow>
          (case heap s1 rel of
             None \<Rightarrow> None
           | Some r \<Rightarrow> map_option Status (Info r)))"

subsection \<open>The releases of the tests\<close>

text \<open>
  The records status_test.go creates: \<open>test-release\<close> in namespace \<open>default\<close> with chart
  \<open>test-chart\<close> 1.0.0, at a given revision and status.
\<close>

definition testRelease :: "int \<Rightarrow> Status \<Rightarrow> Release" where
  "testRelease v st =
     \<lparr>Name = ''test-release'', Namespace = ''default'', Version = v,
      Info = Some \<lparr>Status = st, Description = [], LastDeployed = 0\<rparr>,
      Chart = Some \<lparr>ChartName = ''test-chart'', ChartVersion = ''1.0.0''\<rparr>\<rparr>"

definition copyState :: "((string \<times> int) \<times> Release) list \<Rightarrow> copyDrv state" where
  "copyState rs = \<lparr>heap = Map.empty, drv = \<lparr>nextAddr = 0, db = rs\<rparr>, calls = [], out = []\<rparr>"

text \<open>One revision, deployed (the first test of \<open>TestSetStatus\<close>).\<close>

definition oneDeployed :: "((string \<times> int) \<times> Release) list" where
  "oneDeployed = [((''test-release'', 1), testRelease 1 StatusDeployed)]"

text \<open>Revision 1 superseded, revision 2 deployed (the second test).\<close>

definition twoRevisions :: "((string \<times> int) \<times> Release) list" where
  "twoRevisions =
     [((''test-release'', 1), testRelease 1 StatusSuperseded),
      ((''test-release'', 2), testRelease 2 StatusDeployed)]"


section \<open>Properties of the status vocabulary\<close>

lemma ValidStatusesString_eq:
  "ValidStatusesString =
     ''unknown, deployed, superseded, failed, uninstalling, pending-install, pending-upgrade, pending-rollback''"
  by (simp add: ValidStatusesString_def ValidStatuses_def)

lemma ParseStatus_valid:
  assumes "s \<in> set ValidStatuses"
  shows "snd (ParseStatus s) = None \<and> String (fst (ParseStatus s)) = s"
  using assms unfolding ValidStatuses_def ParseStatus_def by auto

lemma ParseStatus_invalid:
  assumes "s \<notin> set ValidStatuses"
  shows "ParseStatus s = (StatusUnknown, Some (ErrorString (''invalid status: '' @ s)))"
  using assms unfolding ValidStatuses_def ParseStatus_def by simp

lemma String_valid: "String v \<in> set ValidStatuses"
  by (cases v) (simp_all add: ValidStatuses_def)

lemma ParseStatus_String: "ParseStatus (String v) = (v, None)"
  by (cases v) (simp_all add: ParseStatus_def)

text \<open>
  Claim C6. For each of the eight canonical strings, \<open>ParseStatus\<close> succeeds and rendering
  the value it returns gives the string back; for every other string, the empty one and
  the case and padding variants among them, it fails with the error
  \<open>invalid status: s\<close>. Nothing is trimmed, folded or aliased: only the eight strings
  themselves parse.
\<close>

theorem parse_render_canonical:
  "(s \<in> set ValidStatuses \<longrightarrow>
      snd (ParseStatus s) = None \<and> String (fst (ParseStatus s)) = s) \<and>
   (s \<notin> set ValidStatuses \<longrightarrow>
      snd (ParseStatus s) = Some (ErrorString (''invalid status: '' @ s)))"
proof (cases "s \<in> set ValidStatuses")
  case True
  then show ?thesis using ParseStatus_valid [of s] by simp
next
  case False
  then show ?thesis using ParseStatus_invalid [of s] by simp
qed

theorem parse_render_canonical_witness:
  "ParseStatus ''pending-upgrade'' = (StatusPendingUpgrade, None) \<and>
   String (fst (ParseStatus ''pending-upgrade'')) = ''pending-upgrade'' \<and>
   snd (ParseStatus '''') = Some (ErrorString ''invalid status: '') \<and>
   snd (ParseStatus ''Deployed'') = Some (ErrorString ''invalid status: Deployed'') \<and>
   snd (ParseStatus '' deployed '') = Some (ErrorString ''invalid status:  deployed '')"
  using parse_render_canonical [of "''pending-upgrade''"]
    parse_render_canonical [of "''''"]
    parse_render_canonical [of "''Deployed''"]
    parse_render_canonical [of "'' deployed ''"]
  by (simp add: ValidStatuses_def ParseStatus_def)

text \<open>
  Claim C10. For every string outside the canonical set, the \<open>Status\<close> component
  \<open>ParseStatus\<close> returns beside the error is \<open>StatusUnknown\<close>, rendered \<open>unknown\<close>.
\<close>

theorem parse_invalid_returns_unknown:
  assumes "s \<notin> set ValidStatuses"
  shows "fst (ParseStatus s) = StatusUnknown \<and> snd (ParseStatus s) \<noteq> None \<and>
         String (fst (ParseStatus s)) = ''unknown''"
  using ParseStatus_invalid [OF assms] by simp

theorem parse_invalid_returns_unknown_witness:
  "''bogus'' \<notin> set ValidStatuses \<and> fst (ParseStatus ''bogus'') = StatusUnknown \<and>
   snd (ParseStatus ''bogus'') = Some (ErrorString ''invalid status: bogus'')"
  using parse_invalid_returns_unknown [of "''bogus''"]
  by (simp add: ValidStatuses_def ParseStatus_def)

section \<open>Properties of SetStatus and runWithConfigFactory\<close>

text \<open>The definitions a run of the model on the store of the spec unfolds.\<close>

lemmas copy_defs =
  resolve_def SetStatus_def runWithConfigFactory_def storedStatus_def storeFactory_def
  copyStore_def copyGet_def copyLast_def copyUpdate_def
  testRelease_def copyState_def oneDeployed_def twoRevisions_def
  ParseStatus_def Let_def


lemma allowedLoop_set: "allowedLoop c ss = (c \<in> set ss)"
  by (induction ss) auto

lemma resolve_calls:
  "calls (snd (resolve cfg name revision s)) =
     calls s @ [if revision > 0 then CallGet name revision else CallLast name]"
  unfolding resolve_def by (simp add: Let_def split: prod.splits sum.splits)

lemma resolve_out: "out (snd (resolve cfg name revision s)) = out s"
  unfolding resolve_def by (simp add: Let_def split: prod.splits sum.splits)

lemma resolve_error:
  assumes "resolve cfg name revision s = (Inl e, s1)"
  shows "\<not> errors_As_PreconditionError e"
  using assms unfolding resolve_def
  by (auto simp: Let_def split: prod.splits sum.splits if_splits)

lemma SetStatus_lookup_failed:
  assumes "resolve cfg name revision s = (Inl e, s1)"
  shows "SetStatus cfg now name status revision allowed s = (Return (Some e), s1)"
  using assms unfolding SetStatus_def by simp

lemma SetStatus_nil:
  assumes "resolve cfg name revision s = (Inr rel, s1)"
    and "heap s1 rel = None \<or> (\<exists>r. heap s1 rel = Some r \<and> Info r = None)"
  shows "SetStatus cfg now name status revision allowed s = (Panic, s1)"
  using assms unfolding SetStatus_def by auto

lemma SetStatus_rejected:
  assumes "resolve cfg name revision s = (Inr rel, s1)"
    and "heap s1 rel = Some r" and "Info r = Some i"
    and "allowed \<noteq> []" and "Status i \<notin> set allowed"
  shows "SetStatus cfg now name status revision allowed s =
           (Return (Some (PreconditionError (Status i) allowed)), s1)"
  using assms unfolding SetStatus_def by (simp add: allowedLoop_set)

lemma SetStatus_passed:
  assumes "resolve cfg name revision s = (Inr rel, s1)"
    and "heap s1 rel = Some r" and "Info r = Some i"
    and "allowed = [] \<or> Status i \<in> set allowed"
    and "Update cfg rel ((heap s1)(rel \<mapsto> r\<lparr>Info := Some (i\<lparr>Status := status,
            Description := ''status set to '' @ String status, LastDeployed := now\<rparr>)\<rparr>), drv s1)
          = (res, (h, d))"
  shows "SetStatus cfg now name status revision allowed s =
           (Return (case res of
                      None \<Rightarrow> None
                    | Some cause \<Rightarrow>
                        Some (WrapError (''failed to update release '' @ name @ '': '' @ cause)
                                (BackendError cause))),
            s1\<lparr>heap := h, drv := d,
               calls := calls s1 @ [CallUpdate rel (r\<lparr>Info := Some (i\<lparr>Status := status,
                  Description := ''status set to '' @ String status, LastDeployed := now\<rparr>)\<rparr>)]\<rparr>)"
  using assms unfolding SetStatus_def
  by (auto simp: allowedLoop_set Let_def split: option.splits)

text \<open>
  Claim C1. Once the lookup has found a record, \<open>SetStatus\<close> fails with a
  \<open>PreconditionError\<close> exactly when \<open>allowedFromStatuses\<close> is not empty and the record's
  current status is not among its elements (so never when it is empty, and whatever the
  order or the repetitions). In that case the error carries the current status and the
  list, and the state is the one the lookup left: the heap and the backend are untouched
  and the only call logged is the lookup, so nothing was written to the store.
\<close>

theorem setstatus_precondition_iff:
  assumes "resolve cfg name revision s = (Inr rel, s1)"
    and "heap s1 rel = Some r" and "Info r = Some i"
  shows "((\<exists>e. fst (SetStatus cfg now name status revision allowed s) = Return (Some e)
              \<and> errors_As_PreconditionError e)
            = (allowed \<noteq> [] \<and> Status i \<notin> set allowed)) \<and>
         (allowed \<noteq> [] \<and> Status i \<notin> set allowed \<longrightarrow>
            SetStatus cfg now name status revision allowed s
              = (Return (Some (PreconditionError (Status i) allowed)), s1)
            \<and> calls s1 = calls s @ [if revision > 0 then CallGet name revision else CallLast name])"
proof (cases "allowed \<noteq> [] \<and> Status i \<notin> set allowed")
  case True
  then have "SetStatus cfg now name status revision allowed s
              = (Return (Some (PreconditionError (Status i) allowed)), s1)"
    using SetStatus_rejected [OF assms] by simp
  moreover have "calls s1 = calls s @ [if revision > 0 then CallGet name revision else CallLast name]"
    using resolve_calls [of cfg name revision s] assms(1) by simp
  ultimately show ?thesis using True by simp
next
  case False
  then have ok: "allowed = [] \<or> Status i \<in> set allowed" by auto
  obtain res h d where u: "Update cfg rel ((heap s1)(rel \<mapsto> r\<lparr>Info := Some (i\<lparr>Status := status,
            Description := ''status set to '' @ String status, LastDeployed := now\<rparr>)\<rparr>), drv s1)
          = (res, (h, d))"
    by (metis surj_pair)
  have "\<not> (\<exists>e. fst (SetStatus cfg now name status revision allowed s) = Return (Some e)
              \<and> errors_As_PreconditionError e)"
    using SetStatus_passed [OF assms ok u] by (auto split: option.splits)
  then show ?thesis using False by blast
qed

theorem setstatus_precondition_iff_witness:
  "fst (resolve copyStore ''test-release'' 0 (copyState oneDeployed)) = Inr 0 \<and>
   SetStatus copyStore 7 ''test-release'' StatusFailed 0
       [StatusPendingUpgrade, StatusPendingRollback] (copyState oneDeployed)
     = (Return (Some (PreconditionError StatusDeployed
                        [StatusPendingUpgrade, StatusPendingRollback])),
        snd (resolve copyStore ''test-release'' 0 (copyState oneDeployed))) \<and>
   calls (snd (SetStatus copyStore 7 ''test-release'' StatusFailed 0
       [StatusPendingUpgrade, StatusPendingRollback] (copyState oneDeployed)))
     = [CallLast ''test-release''] \<and>
   db (drv (snd (SetStatus copyStore 7 ''test-release'' StatusFailed 0
       [StatusPendingUpgrade, StatusPendingRollback] (copyState oneDeployed)))) = oneDeployed"
proof -
  let ?s1 = "snd (resolve copyStore ''test-release'' 0 (copyState oneDeployed))"
  have a: "resolve copyStore ''test-release'' 0 (copyState oneDeployed) = (Inr 0, ?s1)"
    by (simp add: copy_defs)
  have b: "heap ?s1 0 = Some (testRelease 1 StatusDeployed)"
    by (simp add: copy_defs)
  have c: "Info (testRelease 1 StatusDeployed)
             = Some \<lparr>Status = StatusDeployed, Description = [], LastDeployed = 0\<rparr>"
    by (simp add: testRelease_def)
  from setstatus_precondition_iff [OF a b c, of 7 StatusFailed
         "[StatusPendingUpgrade, StatusPendingRollback]"]
  show ?thesis using a by (simp add: copy_defs)
qed

lemma resolve_latest_failed:
  assumes "revision \<le> 0" and "Last cfg name (heap s, drv s) = (Inl cause, m)"
  shows "fst (resolve cfg name revision s) = Inl (ReleaseNotFoundError name)"
  using assms unfolding resolve_def by (simp add: Let_def split: prod.splits)

lemma resolve_revision_failed:
  assumes "0 < revision" and "Get cfg name revision (heap s, drv s) = (Inl cause, m)"
  shows "fst (resolve cfg name revision s) =
           Inl (WrapError (''failed to get release '' @ name @ '' revision ''
                  @ decInt revision @ '': '' @ cause) (BackendError cause))"
  using assms unfolding resolve_def by (simp add: Let_def split: prod.splits)

lemma SetStatus_fst_lookup_failed:
  assumes "fst (resolve cfg name revision s) = Inl e"
  shows "fst (SetStatus cfg now name status revision allowed s) = Return (Some e)"
proof -
  obtain s1 where "resolve cfg name revision s = (Inl e, s1)"
    using assms by (cases "resolve cfg name revision s") simp
  then show ?thesis using SetStatus_lookup_failed by (metis fst_conv)
qed

text \<open>
  Claim C3. When the latest-lookup fails (revision 0), \<open>SetStatus\<close> returns a
  \<open>ReleaseNotFoundError\<close> carrying the release name. When the lookup of an explicit
  revision above zero fails, it returns the error
  \<open>failed to get release NAME revision R: CAUSE\<close> wrapping the backend's error: the
  message holds the name, the revision and the cause, and no \<open>ReleaseNotFoundError\<close> is
  found in its chain.
\<close>

theorem lookup_failure_kinds:
  "(revision = 0 \<and> Last cfg name (heap s, drv s) = (Inl cause, m) \<longrightarrow>
      fst (SetStatus cfg now name status revision allowed s)
        = Return (Some (ReleaseNotFoundError name))) \<and>
   (0 < revision \<and> Get cfg name revision (heap s, drv s) = (Inl cause, m) \<longrightarrow>
      (\<exists>e. fst (SetStatus cfg now name status revision allowed s) = Return (Some e)
          \<and> e = WrapError (''failed to get release '' @ name @ '' revision ''
                   @ decInt revision @ '': '' @ cause) (BackendError cause)
          \<and> \<not> errors_As_ReleaseNotFoundError e))"
proof (intro conjI impI)
  assume a: "revision = 0 \<and> Last cfg name (heap s, drv s) = (Inl cause, m)"
  then have "fst (resolve cfg name revision s) = Inl (ReleaseNotFoundError name)"
    using resolve_latest_failed [of revision cfg name s cause m] by simp
  then show "fst (SetStatus cfg now name status revision allowed s)
        = Return (Some (ReleaseNotFoundError name))"
    by (rule SetStatus_fst_lookup_failed)
next
  assume a: "0 < revision \<and> Get cfg name revision (heap s, drv s) = (Inl cause, m)"
  then have "fst (resolve cfg name revision s) =
           Inl (WrapError (''failed to get release '' @ name @ '' revision ''
                  @ decInt revision @ '': '' @ cause) (BackendError cause))"
    using resolve_revision_failed [of revision cfg name s cause m] by simp
  then have "fst (SetStatus cfg now name status revision allowed s) =
      Return (Some (WrapError (''failed to get release '' @ name @ '' revision ''
                  @ decInt revision @ '': '' @ cause) (BackendError cause)))"
    by (rule SetStatus_fst_lookup_failed)
  then show "\<exists>e. fst (SetStatus cfg now name status revision allowed s) = Return (Some e)
          \<and> e = WrapError (''failed to get release '' @ name @ '' revision ''
                   @ decInt revision @ '': '' @ cause) (BackendError cause)
          \<and> \<not> errors_As_ReleaseNotFoundError e"
    by simp
qed

theorem lookup_failure_kinds_witness:
  "fst (SetStatus copyStore 7 ''non-existent'' StatusFailed 0 [] (copyState []))
     = Return (Some (ReleaseNotFoundError ''non-existent'')) \<and>
   fst (SetStatus copyStore 7 ''non-existent'' StatusFailed 5 [] (copyState []))
     = Return (Some (WrapError ''failed to get release non-existent revision 5: release: not found''
                       (BackendError ''release: not found'')))"
proof -
  let ?s = "copyState []"
  have a: "(0::int) = 0 \<and> Last copyStore ''non-existent'' (heap ?s, drv ?s)
             = (Inl ''no revision for release'', (heap ?s, drv ?s))"
    by (simp add: copy_defs)
  have b: "(0::int) < 5 \<and> Get copyStore ''non-existent'' 5 (heap ?s, drv ?s)
             = (Inl ''release: not found'', (heap ?s, drv ?s))"
    by (simp add: copy_defs)
  from lookup_failure_kinds [of 0 copyStore "''non-existent''" ?s "''no revision for release''"
         "(heap ?s, drv ?s)" 7 StatusFailed "[]"]
       lookup_failure_kinds [of 5 copyStore "''non-existent''" ?s "''release: not found''"
         "(heap ?s, drv ?s)" 7 StatusFailed "[]"]
       a b
  show ?thesis by (simp add: decInt_def hexDigit_def)
qed

lemma SetStatus_success:
  assumes "SetStatus cfg now name status revision allowed s = (Return None, s')"
  shows "\<exists>rel s1 r i.
           resolve cfg name revision s = (Inr rel, s1) \<and> heap s1 rel = Some r \<and> Info r = Some i \<and>
           (allowed = [] \<or> Status i \<in> set allowed) \<and>
           Update cfg rel ((heap s1)(rel \<mapsto> r\<lparr>Info := Some (i\<lparr>Status := status,
               Description := ''status set to '' @ String status, LastDeployed := now\<rparr>)\<rparr>), drv s1)
             = (None, (heap s', drv s')) \<and>
           calls s' = calls s1 @ [CallUpdate rel (r\<lparr>Info := Some (i\<lparr>Status := status,
               Description := ''status set to '' @ String status, LastDeployed := now\<rparr>)\<rparr>)] \<and>
           out s' = out s1"
  using assms unfolding SetStatus_def
  by (auto simp: allowedLoop_set Let_def split: prod.splits sum.splits option.splits if_splits)

text \<open>
  Claim C4. Every successful \<open>SetStatus\<close> hands \<open>Update\<close> the record the lookup found with
  three fields of its \<open>Info\<close> replaced: the status is the target status, the description
  is \<open>status set to \<close> followed by the rendered target status, and \<open>LastDeployed\<close> is the
  current time. The name, the namespace, the revision, the chart and every other field
  are those of the record found; in the heap only that record's cell is written.
\<close>

theorem setstatus_frame:
  assumes "SetStatus cfg now name status revision allowed s = (Return None, s')"
  shows "\<exists>rel s1 r i r'.
           resolve cfg name revision s = (Inr rel, s1) \<and> heap s1 rel = Some r \<and> Info r = Some i \<and>
           r' = r\<lparr>Info := Some (i\<lparr>Status := status,
                  Description := ''status set to '' @ String status, LastDeployed := now\<rparr>)\<rparr> \<and>
           Name r' = Name r \<and> Namespace r' = Namespace r \<and> Version r' = Version r \<and>
           Chart r' = Chart r \<and>
           calls s' = calls s1 @ [CallUpdate rel r'] \<and>
           Update cfg rel ((heap s1)(rel \<mapsto> r'), drv s1) = (None, (heap s', drv s'))"
proof -
  obtain rel s1 r i where
    res: "resolve cfg name revision s = (Inr rel, s1)" "heap s1 rel = Some r" "Info r = Some i" and
    u: "Update cfg rel ((heap s1)(rel \<mapsto> r\<lparr>Info := Some (i\<lparr>Status := status,
               Description := ''status set to '' @ String status, LastDeployed := now\<rparr>)\<rparr>), drv s1)
             = (None, (heap s', drv s'))" and
    c: "calls s' = calls s1 @ [CallUpdate rel (r\<lparr>Info := Some (i\<lparr>Status := status,
               Description := ''status set to '' @ String status, LastDeployed := now\<rparr>)\<rparr>)]"
    using SetStatus_success [OF assms] by blast
  define r' where "r' = r\<lparr>Info := Some (i\<lparr>Status := status,
               Description := ''status set to '' @ String status, LastDeployed := now\<rparr>)\<rparr>"
  have "Name r' = Name r" "Namespace r' = Namespace r" "Version r' = Version r" "Chart r' = Chart r"
    by (simp_all add: r'_def)
  with res u c r'_def show ?thesis by blast
qed

theorem setstatus_frame_witness:
  "fst (SetStatus copyStore 7 ''test-release'' StatusFailed 0 [] (copyState oneDeployed))
     = Return None \<and>
   calls (snd (SetStatus copyStore 7 ''test-release'' StatusFailed 0 [] (copyState oneDeployed)))
     = [CallLast ''test-release'',
        CallUpdate 0
          \<lparr>Name = ''test-release'', Namespace = ''default'', Version = 1,
           Info = Some \<lparr>Status = StatusFailed, Description = ''status set to failed'',
                         LastDeployed = 7\<rparr>,
           Chart = Some \<lparr>ChartName = ''test-chart'', ChartVersion = ''1.0.0''\<rparr>\<rparr>] \<and>
   storedStatus copyStore ''test-release'' 0
     (snd (SetStatus copyStore 7 ''test-release'' StatusFailed 0 [] (copyState oneDeployed)))
     = Some StatusFailed"
proof -
  let ?s' = "snd (SetStatus copyStore 7 ''test-release'' StatusFailed 0 [] (copyState oneDeployed))"
  have a: "SetStatus copyStore 7 ''test-release'' StatusFailed 0 [] (copyState oneDeployed)
             = (Return None, ?s')"
    by (simp add: copy_defs)
  from setstatus_frame [OF a] a show ?thesis by (simp add: copy_defs)
qed

lemma copy_resolve_revision:
  assumes "0 < revision"
  shows "resolve copyStore name revision s =
           (case map_of (db (drv s)) (name, revision) of
              None \<Rightarrow>
                (Inl (WrapError (''failed to get release '' @ name @ '' revision ''
                        @ decInt revision @ '': release: not found'')
                        (BackendError ''release: not found'')),
                 s\<lparr>calls := calls s @ [CallGet name revision]\<rparr>)
            | Some r \<Rightarrow>
                (Inr (nextAddr (drv s)),
                 s\<lparr>heap := (heap s)(nextAddr (drv s) \<mapsto> r),
                    drv := (drv s)\<lparr>nextAddr := Suc (nextAddr (drv s))\<rparr>,
                    calls := calls s @ [CallGet name revision]\<rparr>))"
  using assms unfolding resolve_def copyStore_def copyGet_def
  by (simp add: Let_def split: option.splits)

lemma copy_storedStatus_revision:
  assumes "0 < revision"
  shows "storedStatus copyStore name revision s =
           (case map_of (db (drv s)) (name, revision) of
              None \<Rightarrow> None
            | Some r \<Rightarrow> map_option Status (Info r))"
  unfolding storedStatus_def copy_resolve_revision [OF assms]
  by (simp split: option.splits)

lemma copyUpdate_ok:
  assumes "copyUpdate rel (h, d) = (None, (h', d'))"
  shows "\<exists>r. h rel = Some r \<and> h' = h \<and>
             db d' = AList.update (Name r, Version r) r (db d)"
  using assms unfolding copyUpdate_def by (auto split: option.splits)

text \<open>
  Claim C5. In the store of the spec, where every record is filed under its own name and
  revision, a successful \<open>SetStatus\<close> on revision \<open>r\<close> above zero replaces the record under
  (name, \<open>r\<close>) by the mutated record and leaves the record under every other key as it
  was: every other revision of the release and every record of another release keeps
  its status.
\<close>

theorem revision_isolation:
  assumes "0 < revision"
    and "\<forall>k x. map_of (db (drv s)) k = Some x \<longrightarrow> k = (Name x, Version x)"
    and "SetStatus copyStore now name status revision allowed s = (Return None, s')"
  shows "\<exists>r i. map_of (db (drv s)) (name, revision) = Some r \<and> Info r = Some i \<and>
           map_of (db (drv s')) =
             (map_of (db (drv s)))((name, revision) \<mapsto> r\<lparr>Info := Some (i\<lparr>Status := status,
                Description := ''status set to '' @ String status, LastDeployed := now\<rparr>)\<rparr>) \<and>
           (\<forall>n v. (n, v) \<noteq> (name, revision) \<longrightarrow>
              map_of (db (drv s')) (n, v) = map_of (db (drv s)) (n, v)) \<and>
           (\<forall>n v. 0 < v \<and> (n, v) \<noteq> (name, revision) \<longrightarrow>
              storedStatus copyStore n v s' = storedStatus copyStore n v s)"
proof -
  obtain rel s1 r i where
    res: "resolve copyStore name revision s = (Inr rel, s1)" and
    h: "heap s1 rel = Some r" and i: "Info r = Some i" and
    u: "Update copyStore rel ((heap s1)(rel \<mapsto> r\<lparr>Info := Some (i\<lparr>Status := status,
               Description := ''status set to '' @ String status, LastDeployed := now\<rparr>)\<rparr>), drv s1)
             = (None, (heap s', drv s'))"
    using SetStatus_success [OF assms(3)] by blast
  from res have found: "map_of (db (drv s)) (name, revision) = Some r"
    and db1: "db (drv s1) = db (drv s)"
    using h unfolding copy_resolve_revision [OF assms(1)]
    by (auto split: option.splits)
  from found assms(2) have key: "(Name r, Version r) = (name, revision)" by metis
  define r' where "r' = r\<lparr>Info := Some (i\<lparr>Status := status,
               Description := ''status set to '' @ String status, LastDeployed := now\<rparr>)\<rparr>"
  have nv: "Name r' = Name r" "Version r' = Version r" by (simp_all add: r'_def)
  from u have "copyUpdate rel ((heap s1)(rel \<mapsto> r'), drv s1) = (None, (heap s', drv s'))"
    by (simp add: copyStore_def r'_def)
  from copyUpdate_ok [OF this]
  have "db (drv s') = AList.update (Name r, Version r) r' (db (drv s1))"
    using nv by auto
  then have m: "map_of (db (drv s')) =
             (map_of (db (drv s)))((name, revision) \<mapsto> r\<lparr>Info := Some (i\<lparr>Status := status,
                Description := ''status set to '' @ String status, LastDeployed := now\<rparr>)\<rparr>)"
    using key db1 by (simp add: update_conv' r'_def)
  then have other: "\<forall>n v. (n, v) \<noteq> (name, revision) \<longrightarrow>
              map_of (db (drv s')) (n, v) = map_of (db (drv s)) (n, v)"
    by simp
  then have "\<forall>n v. 0 < v \<and> (n, v) \<noteq> (name, revision) \<longrightarrow>
              storedStatus copyStore n v s' = storedStatus copyStore n v s"
    by (simp add: copy_storedStatus_revision)
  with found i m other show ?thesis by blast
qed

theorem revision_isolation_witness:
  "fst (SetStatus copyStore 7 ''test-release'' StatusFailed 1 [] (copyState twoRevisions))
     = Return None \<and>
   storedStatus copyStore ''test-release'' 1
     (snd (SetStatus copyStore 7 ''test-release'' StatusFailed 1 [] (copyState twoRevisions)))
     = Some StatusFailed \<and>
   storedStatus copyStore ''test-release'' 2
     (snd (SetStatus copyStore 7 ''test-release'' StatusFailed 1 [] (copyState twoRevisions)))
     = Some StatusDeployed"
proof -
  let ?s = "copyState twoRevisions"
  let ?s' = "snd (SetStatus copyStore 7 ''test-release'' StatusFailed 1 [] ?s)"
  have a: "(0::int) < 1" by simp
  have b: "\<forall>k x. map_of (db (drv ?s)) k = Some x \<longrightarrow> k = (Name x, Version x)"
    by (auto simp: copyState_def twoRevisions_def testRelease_def split: if_splits)
  have c: "SetStatus copyStore 7 ''test-release'' StatusFailed 1 [] ?s = (Return None, ?s')"
    by (simp add: copy_defs)
  from revision_isolation [OF a b c] c show ?thesis by (simp add: copy_defs)
qed

lemma loop_keeps:
  "sublist y acc \<Longrightarrow> sublist y (ValidStatusesString_loop i xs acc)"
proof (induction xs arbitrary: i acc)
  case Nil
  then show ?case by simp
next
  case (Cons x xs)
  have "sublist acc ((if i > 0 then acc @ '', '' else acc) @ x)"
    by (simp del: append_assoc add: append_assoc [symmetric])
  with Cons.prems have "sublist y ((if i > 0 then acc @ '', '' else acc) @ x)"
    using sublist_order.order.trans by blast
  from Cons.IH [OF this] show ?case by simp
qed

lemma loop_lists:
  "x \<in> set xs \<Longrightarrow> sublist x (ValidStatusesString_loop i xs acc)"
proof (induction xs arbitrary: i acc)
  case Nil
  then show ?case by simp
next
  case (Cons a xs)
  show ?case
  proof (cases "x = a")
    case True
    have "sublist x ((if i > 0 then acc @ '', '' else acc) @ a)"
      using True sublist_append_leftI by blast
    from loop_keeps [OF this] show ?thesis by simp
  next
    case False
    with Cons.prems have "x \<in> set xs" by simp
    from Cons.IH [OF this] show ?thesis by simp
  qed
qed

lemma ValidStatusesString_lists:
  "v \<in> set ValidStatuses \<Longrightarrow> sublist v ValidStatusesString"
  unfolding ValidStatusesString_def by (rule loop_lists)

lemma suffix_after2: "suffix s (a @ b @ s)"
  by (metis append_assoc suffixI)

lemma suffix_after5: "suffix s (a @ b @ c @ d @ e @ s)"
  by (metis append_assoc suffixI)

lemma parseFromStatuses_invalid:
  assumes "\<exists>x\<in>set xs. x \<notin> set ValidStatuses"
  shows "\<exists>e. parseFromStatuses xs acc = Inl e \<and>
             suffix (''Valid statuses: '' @ ValidStatusesString) (Error e)"
  using assms
proof (induction xs arbitrary: acc)
  case Nil
  then show ?case by simp
next
  case (Cons x xs)
  show ?case
  proof (cases "x \<in> set ValidStatuses")
    case True
    then have p: "snd (ParseStatus x) = None" using ParseStatus_valid by blast
    from True Cons.prems have "\<exists>y\<in>set xs. y \<notin> set ValidStatuses" by auto
    from Cons.IH [OF this] p show ?thesis
      by (cases "ParseStatus x") simp
  next
    case False
    have "suffix (''Valid statuses: '' @ ValidStatusesString)
            (''invalid --from status '' @ quote x @ '': ''
               @ Error (ErrorString (''invalid status: '' @ x))
               @ [CHR 0x0A] @ ''Valid statuses: '' @ ValidStatusesString)"
      by (rule suffix_after5)
    then show ?thesis
      using ParseStatus_invalid [OF False] by simp
  qed
qed

lemma parseFromStatuses_valid:
  "parseFromStatuses xs acc = Inr ys \<Longrightarrow>
     set xs \<subseteq> set ValidStatuses \<and> ys = acc @ map (\<lambda>x. fst (ParseStatus x)) xs"
proof (induction xs arbitrary: acc)
  case Nil
  then show ?case by simp
next
  case (Cons x xs)
  show ?case
  proof (cases "x \<in> set ValidStatuses")
    case True
    then have p: "snd (ParseStatus x) = None" using ParseStatus_valid by blast
    with Cons.prems have "parseFromStatuses xs (acc @ [fst (ParseStatus x)]) = Inr ys"
      by (cases "ParseStatus x") simp
    from Cons.IH [OF this] True show ?thesis by simp
  next
    case False
    then show ?thesis using Cons.prems ParseStatus_invalid [OF False] by simp
  qed
qed

text \<open>
  Claim C7. When the target status string or some entry of the \<open>--from\<close> list is not one of
  the eight canonical strings, \<open>runWithConfigFactory\<close> returns an error whose message ends
  with \<open>Valid statuses: \<close> and the comma-separated list, so that every valid value stands
  in it, and the state is unchanged: the call log has no new entry, so the factory was
  not invoked and the store was neither read nor written.
\<close>

theorem validation_before_store:
  assumes "2 \<le> length args"
    and "args ! 1 \<notin> set ValidStatuses \<or> (\<exists>x\<in>set fromStatuses. x \<notin> set ValidStatuses)"
  shows "\<exists>e. runWithConfigFactory now args revision fromStatuses noFail configFactory s
               = (Return (Some e), s) \<and>
             suffix (''Valid statuses: '' @ ValidStatusesString) (Error e) \<and>
             (\<forall>v\<in>set ValidStatuses. sublist v (Error e))"
proof -
  have "\<exists>e. runWithConfigFactory now args revision fromStatuses noFail configFactory s
               = (Return (Some e), s) \<and>
             suffix (''Valid statuses: '' @ ValidStatusesString) (Error e)"
  proof (cases "args ! 1 \<in> set ValidStatuses")
    case False
    have "suffix (''Valid statuses: '' @ ValidStatusesString)
            (Error (ErrorString (''invalid status: '' @ args ! 1)) @ [CHR 0x0A]
               @ ''Valid statuses: '' @ ValidStatusesString)"
      by (rule suffix_after2)
    then show ?thesis
      using assms(1) ParseStatus_invalid [OF False]
      unfolding runWithConfigFactory_def by (simp add: Let_def)
  next
    case True
    then have p: "snd (ParseStatus (args ! 1)) = None" using ParseStatus_valid by blast
    from True assms(2) have "\<exists>x\<in>set fromStatuses. x \<notin> set ValidStatuses" by simp
    from parseFromStatuses_invalid [OF this, of "[]"]
    obtain e where e: "parseFromStatuses fromStatuses [] = Inl e"
      "suffix (''Valid statuses: '' @ ValidStatusesString) (Error e)" by blast
    then show ?thesis
      using assms(1) p unfolding runWithConfigFactory_def
      by (cases "ParseStatus (args ! 1)") (simp add: Let_def)
  qed
  then obtain e where e: "runWithConfigFactory now args revision fromStatuses noFail configFactory s
               = (Return (Some e), s)"
      "suffix (''Valid statuses: '' @ ValidStatusesString) (Error e)" by blast
  have "\<forall>v\<in>set ValidStatuses. sublist v (Error e)"
  proof
    fix v assume "v \<in> set ValidStatuses"
    then have "sublist v (''Valid statuses: '' @ ValidStatusesString)"
      using ValidStatusesString_lists sublist_append_leftI sublist_order.order.trans by blast
    moreover have "sublist (''Valid statuses: '' @ ValidStatusesString) (Error e)"
      using e(2) by (rule suffix_imp_sublist)
    ultimately show "sublist v (Error e)"
      using sublist_order.order.trans by blast
  qed
  with e show ?thesis by blast
qed

theorem validation_before_store_witness:
  "runWithConfigFactory 7 [''test-release'', ''invalid''] 0 [] False (storeFactory copyStore)
       (copyState oneDeployed)
     = (Return (Some (WrapError
          (''invalid status: invalid'' @ [CHR 0x0A]
             @ ''Valid statuses: unknown, deployed, superseded, failed, uninstalling, pending-install, pending-upgrade, pending-rollback'')
          (ErrorString ''invalid status: invalid''))),
        copyState oneDeployed) \<and>
   snd (runWithConfigFactory 7 [''test-release'', ''failed''] 0 [''deployed'', ''Deployed'']
          False (storeFactory copyStore) (copyState oneDeployed))
     = copyState oneDeployed"
proof -
  have a: "2 \<le> length [''test-release'', ''invalid'']" by simp
  have b: "[''test-release'', ''invalid''] ! 1 \<notin> set ValidStatuses \<or>
           (\<exists>x\<in>set ([]::string list). x \<notin> set ValidStatuses)"
    by (simp add: ValidStatuses_def)
  have c: "2 \<le> length [''test-release'', ''failed'']" by simp
  have d: "[''test-release'', ''failed''] ! 1 \<notin> set ValidStatuses \<or>
           (\<exists>x\<in>set [''deployed'', ''Deployed'']. x \<notin> set ValidStatuses)"
    by (simp add: ValidStatuses_def)
  from validation_before_store [OF a b, of 7 0 False "storeFactory copyStore" "copyState oneDeployed"]
       validation_before_store [OF c d, of 7 0 False "storeFactory copyStore" "copyState oneDeployed"]
  show ?thesis
    by (auto simp: runWithConfigFactory_def ParseStatus_def ValidStatusesString_eq Let_def)
qed

lemma quote_String: "quote (String c) = [CHR 0x22] @ String c @ [CHR 0x22]"
  by (cases c) (simp_all add: quote_def quoteChar_def)

lemma statusListToStrings_map: "statusListToStrings a = map String a"
  by (induction a) simp_all

lemma Error_PreconditionError:
  "Error (PreconditionError c a) =
     ''current status '' @ [CHR 0x22] @ String c @ [CHR 0x22]
       @ '' is not in allowed list: '' @ ''['' @ joinSpace (map String a) @ '']''"
  by (simp add: quote_String statusListToStrings_map fmtStrings_def)

lemma sublist_third: "sublist x (a @ b @ x @ c)"
  by (metis append_assoc sublist_appendI)

lemma sublist_last: "sublist x (a @ b @ c @ d @ e @ x)"
  by (metis append_assoc sublist_append_leftI)

lemma SetStatus_precondition_error:
  assumes "SetStatus cfg now name status revision allowed s = (Return (Some e), s2)"
    and "errors_As_PreconditionError e"
  shows "\<exists>rel r i. resolve cfg name revision s = (Inr rel, s2) \<and> heap s2 rel = Some r \<and>
           Info r = Some i \<and> e = PreconditionError (Status i) allowed \<and>
           allowed \<noteq> [] \<and> Status i \<notin> set allowed"
proof (cases "resolve cfg name revision s")
  case (Pair res s1)
  show ?thesis
  proof (cases res)
    case (Inl e')
    with Pair assms(1) have "e = e'" by (simp add: SetStatus_def)
    with resolve_error Pair Inl assms(2) show ?thesis by blast
  next
    case (Inr rel)
    with Pair assms show ?thesis
      unfolding SetStatus_def
      by (auto simp: allowedLoop_set Let_def split: option.splits if_splits prod.splits)
  qed
qed

text \<open>
  Claim C2. When the status strings are valid, the factory has returned a store and
  \<open>SetStatus\<close> has failed with an error \<open>e\<close>, \<open>runWithConfigFactory\<close> returns \<open>nil\<close> exactly
  when \<open>e\<close> is a \<open>PreconditionError\<close> and \<open>noFail\<close> is set. It then writes the line
  \<open>Skipped: \<close> followed by the error's message, which holds the current status and the
  allowed list as they are rendered. In every other case (the flag unset, or another kind
  of error with or without the flag) it returns \<open>e\<close> itself and writes nothing.
\<close>

theorem wrapper_skip_policy:
  assumes "2 \<le> length args"
    and "ParseStatus (args ! 1) = (target, None)"
    and "parseFromStatuses fromStatuses [] = Inr allowed"
    and "configFactory (heap s, drv s) = (Inr cfg, (h, d))"
    and "SetStatus cfg now (args ! 0) target revision allowed
           (s\<lparr>heap := h, drv := d, calls := calls s @ [CallFactory]\<rparr>) = (Return (Some e), s2)"
  shows "runWithConfigFactory now args revision fromStatuses noFail configFactory s =
           (if errors_As_PreconditionError e \<and> noFail
            then (Return None, s2\<lparr>out := out s2 @ [''Skipped: '' @ Error e @ [CHR 0x0A]]\<rparr>)
            else (Return (Some e), s2)) \<and>
         ((fst (runWithConfigFactory now args revision fromStatuses noFail configFactory s)
             = Return None) = (errors_As_PreconditionError e \<and> noFail)) \<and>
         (errors_As_PreconditionError e \<longrightarrow>
            (\<exists>rel r i. heap s2 rel = Some r \<and> Info r = Some i \<and>
               e = PreconditionError (Status i) allowed \<and>
               Error e = ''current status '' @ [CHR 0x22] @ String (Status i) @ [CHR 0x22]
                  @ '' is not in allowed list: '' @ ''['' @ joinSpace (map String allowed) @ '']'' \<and>
               sublist (String (Status i)) (''Skipped: '' @ Error e @ [CHR 0x0A]) \<and>
               sublist (''['' @ joinSpace (map String allowed) @ '']'')
                 (''Skipped: '' @ Error e @ [CHR 0x0A])))"
proof -
  have run: "runWithConfigFactory now args revision fromStatuses noFail configFactory s =
           (if errors_As_PreconditionError e \<and> noFail
            then (Return None, s2\<lparr>out := out s2 @ [''Skipped: '' @ Error e @ [CHR 0x0A]]\<rparr>)
            else (Return (Some e), s2))"
    using assms unfolding runWithConfigFactory_def by (simp add: Let_def)
  then have iff: "(fst (runWithConfigFactory now args revision fromStatuses noFail configFactory s)
             = Return None) = (errors_As_PreconditionError e \<and> noFail)"
    by simp
  have msg: "\<exists>rel r i. heap s2 rel = Some r \<and> Info r = Some i \<and>
               e = PreconditionError (Status i) allowed \<and>
               Error e = ''current status '' @ [CHR 0x22] @ String (Status i) @ [CHR 0x22]
                  @ '' is not in allowed list: '' @ ''['' @ joinSpace (map String allowed) @ '']'' \<and>
               sublist (String (Status i)) (''Skipped: '' @ Error e @ [CHR 0x0A]) \<and>
               sublist (''['' @ joinSpace (map String allowed) @ '']'')
                 (''Skipped: '' @ Error e @ [CHR 0x0A])"
    if as: "errors_As_PreconditionError e"
  proof -
    from SetStatus_precondition_error [OF assms(5) as]
    obtain rel r i where r: "heap s2 rel = Some r" "Info r = Some i"
      "e = PreconditionError (Status i) allowed" by blast
    have m: "Error e = ''current status '' @ [CHR 0x22] @ String (Status i) @ [CHR 0x22]
                  @ '' is not in allowed list: '' @ ''['' @ joinSpace (map String allowed) @ '']''"
      unfolding r(3) by (rule Error_PreconditionError)
    have s1: "sublist (String (Status i)) (Error e)"
      unfolding m by (rule sublist_third)
    have s2: "sublist (''['' @ joinSpace (map String allowed) @ '']'') (Error e)"
      unfolding m by (rule sublist_last)
    have w: "sublist (Error e) (''Skipped: '' @ Error e @ [CHR 0x0A])"
      by (rule sublist_appendI)
    from s1 s2 w have "sublist (String (Status i)) (''Skipped: '' @ Error e @ [CHR 0x0A])"
      "sublist (''['' @ joinSpace (map String allowed) @ '']'')
                 (''Skipped: '' @ Error e @ [CHR 0x0A])"
      using sublist_order.order.trans by blast+
    with r m show ?thesis by blast
  qed
  from run iff msg show ?thesis by blast
qed

theorem wrapper_skip_policy_witness:
  "runWithConfigFactory 7 [''test-release'', ''failed''] 0
       [''pending-upgrade'', ''pending-rollback''] True (storeFactory copyStore)
       (copyState oneDeployed)
     = (Return None,
        (snd (SetStatus copyStore 7 ''test-release'' StatusFailed 0
                [StatusPendingUpgrade, StatusPendingRollback]
                ((copyState oneDeployed)\<lparr>calls := [CallFactory]\<rparr>)))
        \<lparr>out := [''Skipped: current status '' @ [CHR 0x22] @ ''deployed'' @ [CHR 0x22]
                 @ '' is not in allowed list: [pending-upgrade pending-rollback]''
                 @ [CHR 0x0A]]\<rparr>) \<and>
   fst (runWithConfigFactory 7 [''test-release'', ''failed''] 0
       [''pending-upgrade'', ''pending-rollback''] False (storeFactory copyStore)
       (copyState oneDeployed))
     = Return (Some (PreconditionError StatusDeployed
                       [StatusPendingUpgrade, StatusPendingRollback]))"
proof -
  let ?s = "copyState oneDeployed"
  let ?al = "[StatusPendingUpgrade, StatusPendingRollback]"
  let ?sf = "?s\<lparr>heap := heap ?s, drv := drv ?s, calls := calls ?s @ [CallFactory]\<rparr>"
  let ?sz = "snd (SetStatus copyStore 7 ([''test-release'', ''failed''] ! 0) StatusFailed 0 ?al ?sf)"
  have a: "2 \<le> length [''test-release'', ''failed'']" by simp
  have b: "ParseStatus ([''test-release'', ''failed''] ! 1) = (StatusFailed, None)"
    by (simp add: ParseStatus_def)
  have c: "parseFromStatuses [''pending-upgrade'', ''pending-rollback''] [] = Inr ?al"
    by (simp add: ParseStatus_def)
  have d: "storeFactory copyStore (heap ?s, drv ?s) = (Inr copyStore, (heap ?s, drv ?s))"
    by (simp add: storeFactory_def)
  have e: "SetStatus copyStore 7 ([''test-release'', ''failed''] ! 0) StatusFailed 0 ?al ?sf
             = (Return (Some (PreconditionError StatusDeployed ?al)), ?sz)"
    by (simp add: copy_defs)
  note w = wrapper_skip_policy [where args = "[''test-release'', ''failed'']"
      and target = StatusFailed and fromStatuses = "[''pending-upgrade'', ''pending-rollback'']"
      and allowed = ?al and configFactory = "storeFactory copyStore" and s = ?s
      and cfg = copyStore and h = "heap ?s" and d = "drv ?s" and now = 7 and revision = 0
      and e = "PreconditionError StatusDeployed ?al" and ?s2.0 = ?sz, OF a b c d e]
  from w [of True] w [of False]
  show ?thesis by (simp add: copy_defs quote_def quoteChar_def fmtStrings_def)
qed




lemma resolve_nonpositive:
  "revision \<le> 0 \<Longrightarrow> resolve cfg name revision s = resolve cfg name 0 s"
  unfolding resolve_def by simp

lemma SetStatus_nonpositive:
  "revision \<le> 0 \<Longrightarrow>
     SetStatus cfg now name status revision allowed s = SetStatus cfg now name status 0 allowed s"
  unfolding SetStatus_def by (simp add: resolve_nonpositive [of revision])

lemma runWithConfigFactory_nonpositive:
  "revision \<le> 0 \<Longrightarrow>
     runWithConfigFactory now args revision fromStatuses noFail configFactory s
       = runWithConfigFactory now args 0 fromStatuses noFail configFactory s"
  unfolding runWithConfigFactory_def
  by (simp add: SetStatus_nonpositive [of revision] Let_def
        cong: prod.case_cong sum.case_cong option.case_cong outcome.case_cong if_cong)

lemma SetStatus_calls:
  "\<exists>rest. calls (snd (SetStatus cfg now name status revision allowed s)) =
     calls s @ (if 0 < revision then CallGet name revision else CallLast name) # rest"
proof (cases "resolve cfg name revision s")
  case (Pair res s1)
  have c: "calls s1 = calls s @ [if 0 < revision then CallGet name revision else CallLast name]"
    using resolve_calls [of cfg name revision s] Pair by simp
  show ?thesis
    unfolding SetStatus_def Pair using c
    by (auto simp: Let_def split: sum.splits option.splits prod.splits)
qed

text \<open>
  Claim C9, as amended. The first call \<open>SetStatus\<close> makes is the lookup by name and
  revision when the revision is above zero and the latest-lookup otherwise: zero and
  every negative revision go to the latest-lookup. Neither \<open>SetStatus\<close> nor
  \<open>runWithConfigFactory\<close> validates the revision: with a revision below zero each behaves
  exactly as with revision 0.
\<close>

theorem revision_routing:
  "(\<exists>rest. calls (snd (SetStatus cfg now name status revision allowed s)) =
      calls s @ (if 0 < revision then CallGet name revision else CallLast name) # rest) \<and>
   (revision \<le> 0 \<longrightarrow>
      SetStatus cfg now name status revision allowed s
        = SetStatus cfg now name status 0 allowed s \<and>
      runWithConfigFactory now args revision fromStatuses noFail configFactory s
        = runWithConfigFactory now args 0 fromStatuses noFail configFactory s)"
proof (intro conjI impI)
  show "\<exists>rest. calls (snd (SetStatus cfg now name status revision allowed s)) =
      calls s @ (if 0 < revision then CallGet name revision else CallLast name) # rest"
    by (rule SetStatus_calls)
next
  assume "revision \<le> 0"
  then show "SetStatus cfg now name status revision allowed s
        = SetStatus cfg now name status 0 allowed s"
    by (rule SetStatus_nonpositive)
next
  assume "revision \<le> 0"
  then show "runWithConfigFactory now args revision fromStatuses noFail configFactory s
        = runWithConfigFactory now args 0 fromStatuses noFail configFactory s"
    by (rule runWithConfigFactory_nonpositive)
qed

theorem revision_routing_witness:
  "SetStatus copyStore 7 ''test-release'' StatusFailed (- 3) [] (copyState twoRevisions)
     = SetStatus copyStore 7 ''test-release'' StatusFailed 0 [] (copyState twoRevisions) \<and>
   runWithConfigFactory 7 [''test-release'', ''failed''] (- 3) [] False (storeFactory copyStore)
       (copyState twoRevisions)
     = runWithConfigFactory 7 [''test-release'', ''failed''] 0 [] False (storeFactory copyStore)
       (copyState twoRevisions) \<and>
   hd (calls (snd (SetStatus copyStore 7 ''test-release'' StatusFailed (- 3) []
                (copyState twoRevisions)))) = CallLast ''test-release''"
proof -
  have a: "(- 3::int) \<le> 0" by simp
  from revision_routing [where cfg = copyStore and now = 7 and name = "''test-release''"
         and status = StatusFailed and revision = "- 3" and allowed = "[]"
         and s = "copyState twoRevisions" and args = "[''test-release'', ''failed'']"
         and fromStatuses = "[]" and noFail = False
         and configFactory = "storeFactory copyStore"] a
  show ?thesis by (auto simp: copyState_def)
qed

text \<open>
  Claim C9 as it stands fails at revision -1: on a release with revisions 1 and 2 the
  command succeeds, the store is asked for the latest revision and never for revision
  -1, and it is revision 2, the latest, whose status is set.
\<close>

theorem negative_revision_counterexample:
  "fst (runWithConfigFactory 7 [''test-release'', ''failed''] (- 1) [] False
          (storeFactory copyStore) (copyState twoRevisions)) = Return None \<and>
   calls (snd (runWithConfigFactory 7 [''test-release'', ''failed''] (- 1) [] False
          (storeFactory copyStore) (copyState twoRevisions)))
     = [CallFactory, CallLast ''test-release'',
        CallUpdate 0
          \<lparr>Name = ''test-release'', Namespace = ''default'', Version = 2,
           Info = Some \<lparr>Status = StatusFailed, Description = ''status set to failed'',
                         LastDeployed = 7\<rparr>,
           Chart = Some \<lparr>ChartName = ''test-chart'', ChartVersion = ''1.0.0''\<rparr>\<rparr>] \<and>
   storedStatus copyStore ''test-release'' 2
     (snd (runWithConfigFactory 7 [''test-release'', ''failed''] (- 1) [] False
          (storeFactory copyStore) (copyState twoRevisions))) = Some StatusFailed"
  by (simp add: copy_defs)

end
